theory Spec2Isabelle
  imports Main "HOL-Library.Word" "HOL-Library.AList"
begin

section \<open>Values, exceptions and the adapter's state\<close>

text \<open>
  The values \<^verbatim>\<open>json.loads\<close> produces and the facade passes around: \<^verbatim>\<open>None\<close>,
  booleans, unbounded integers, floats (kept as their IEEE-754 binary64 bit pattern),
  strings, lists and dictionaries. A dictionary is an association list in insertion
  order. \<open>PDefault v\<close> is the instance \<^verbatim>\<open>Default(v)\<close> of the sentinel class
  \<^verbatim>\<open>config_file.utils.Default\<close>, and \<open>PDefaultMeta\<close> is the object
  \<^verbatim>\<open>type(Default)\<close>, the class of that class.
\<close>

datatype pyval =
    PNone
  | PBool bool
  | PInt int
  | PFloat "64 word"
  | PStr string
  | PList "pyval list"
  | PDict "(string \<times> pyval) list"
  | PDefault pyval
  | PDefaultMeta

text \<open>Exceptions are values; \<open>ParsingError e\<close> carries the exception it was built from.\<close>

datatype error =
    JSONDecodeError string
  | ValueError string
  | RecursionError string
  | ParsingError error
  | KeyError string
  | TypeError string
  | AttributeError string
  | FileNotFoundError string
  | SameFileError string

text \<open>
  The adapter's only mutable state is \<^verbatim>\<open>self.parsed_content\<close>, which
  \<^verbatim>\<open>BaseParser\<close> keeps.
\<close>

record JsonParser =
  parsed_content :: pyval

section \<open>json\_parser.py\<close>

text \<open>
  \<^verbatim>\<open>json.loads\<close> and \<^verbatim>\<open>json.dumps\<close> belong to the standard library, so they are
  parameters. On a string \<^verbatim>\<open>json.loads\<close> returns the decoded value, or raises
  \<^verbatim>\<open>json.decoder.JSONDecodeError\<close> for a text it cannot decode, or raises one of
  the exceptions it has besides: \<^verbatim>\<open>ValueError\<close> for an integer literal beyond the
  interpreter's digit limit and \<^verbatim>\<open>RecursionError\<close> for a text nested too deep.
  \<open>json_dumps\<close> is \<open>Inl\<close> when the library refuses to serialise the value.
\<close>

datatype loads_result =
    Returned pyval
  | RaisedJSONDecodeError string
  | RaisedValueError string
  | RaisedRecursionError string

type_synonym loads = "string \<Rightarrow> loads_result"
type_synonym dumps = "pyval \<Rightarrow> error + string"

text \<open>
  \<^verbatim>\<open>parse\<close>: the \<^verbatim>\<open>except\<close> clause names \<^verbatim>\<open>JSONDecodeError\<close> alone, so that
  exception is replaced by a \<^verbatim>\<open>ParsingError\<close> built from it and every other one
  leaves the method as it is.
\<close>

definition JsonParser_parse :: "loads \<Rightarrow> string \<Rightarrow> error + pyval" where
  "JsonParser_parse json_loads file_contents =
     (case json_loads file_contents of
        Returned tree \<Rightarrow> Inr tree
      | RaisedJSONDecodeError msg \<Rightarrow> Inl (ParsingError (JSONDecodeError msg))
      | RaisedValueError msg \<Rightarrow> Inl (ValueError msg)
      | RaisedRecursionError msg \<Rightarrow> Inl (RecursionError msg))"

text \<open>The bodies of \<^verbatim>\<open>get\<close>, \<^verbatim>\<open>set\<close> and \<^verbatim>\<open>delete\<close> are \<^verbatim>\<open>pass\<close>.\<close>

definition JsonParser_get :: "JsonParser \<Rightarrow> string \<Rightarrow> bool \<Rightarrow> error + pyval" where
  "JsonParser_get self section_key parse_type = Inr PNone"

definition JsonParser_set :: "JsonParser \<Rightarrow> string \<Rightarrow> pyval \<Rightarrow> error + JsonParser" where
  "JsonParser_set self section_key v = Inr self"

definition JsonParser_delete :: "JsonParser \<Rightarrow> string \<Rightarrow> error + JsonParser" where
  "JsonParser_delete self section_key = Inr self"

definition JsonParser_stringify :: "dumps \<Rightarrow> JsonParser \<Rightarrow> error + string" where
  "JsonParser_stringify json_dumps self = json_dumps (parsed_content self)"

text \<open>\<^verbatim>\<open>search_item in data\<close> for a dictionary \<open>data\<close>.\<close>

definition dict_contains :: "(string \<times> pyval) list \<Rightarrow> string \<Rightarrow> bool" where
  "dict_contains data k = (k \<in> set (map fst data))"

text \<open>
  \<^verbatim>\<open>_search\<close>: \<open>search_items data items\<close> is the \<^verbatim>\<open>for\<close> loop over the entries
  \<open>items\<close> still to visit of \<^verbatim>\<open>data.items()\<close>. A value that is not a dictionary has
  no \<^verbatim>\<open>items\<close>. In the last branch the source calls itself and drops what comes
  back; only an exception of the call would get out.
\<close>

fun JsonParser_search :: "pyval \<Rightarrow> string \<Rightarrow> error + bool"
  and search_items :: "(string \<times> pyval) list \<Rightarrow> (string \<times> pyval) list \<Rightarrow> string \<Rightarrow> error + bool"
where
  "JsonParser_search (PDict data) search_item = search_items data data search_item"
| "JsonParser_search PNone search_item = Inl (AttributeError ''items'')"
| "JsonParser_search (PBool b) search_item = Inl (AttributeError ''items'')"
| "JsonParser_search (PInt i) search_item = Inl (AttributeError ''items'')"
| "JsonParser_search (PFloat f) search_item = Inl (AttributeError ''items'')"
| "JsonParser_search (PStr s) search_item = Inl (AttributeError ''items'')"
| "JsonParser_search (PList xs) search_item = Inl (AttributeError ''items'')"
| "JsonParser_search (PDefault d) search_item = Inl (AttributeError ''items'')"
| "JsonParser_search PDefaultMeta search_item = Inl (AttributeError ''items'')"
| "search_items data [] search_item = Inr False"
| "search_items data ((key, PDict inner) # rest) search_item =
     (if dict_contains data search_item then Inr True
      else if dict_contains inner search_item then Inr True
      else (case JsonParser_search (PDict inner) search_item of
              Inl e \<Rightarrow> Inl e
            | Inr dropped \<Rightarrow> search_items data rest search_item))"
| "search_items data ((key, v) # rest) search_item =
     (if dict_contains data search_item then Inr True
      else search_items data rest search_item)"

definition JsonParser_has :: "JsonParser \<Rightarrow> string \<Rightarrow> error + bool" where
  "JsonParser_has self search_key = JsonParser_search (parsed_content self) search_key"

text \<open>
  Calling \<^verbatim>\<open>has\<close> with keyword arguments. The method declares \<^verbatim>\<open>search_key\<close>
  alone, and the caller binds it by position, so any keyword argument makes the call
  fail with \<^verbatim>\<open>TypeError\<close> before the body runs.
\<close>

definition JsonParser_has_call ::
  "JsonParser \<Rightarrow> string \<Rightarrow> (string \<times> pyval) list \<Rightarrow> error + bool" where
  "JsonParser_has_call self search_key kwargs =
     (case kwargs of
        [] \<Rightarrow> JsonParser_has self search_key
      | (name, v) # others \<Rightarrow> Inl (TypeError name))"

section \<open>config\_file.py\<close>

text \<open>
  The facade holds \<^verbatim>\<open>self.__path\<close> and \<^verbatim>\<open>self.__parser\<close>. The path object
  is a \<^verbatim>\<open>ConfigFilePath\<close>, whose class is not among the sources; its property
  \<^verbatim>\<open>original_path\<close> is kept here as a field next to the path it is computed from.
\<close>

record ConfigFile =
  path :: string
  original_path :: string
  parser :: JsonParser

subsection \<open>Subscript operators\<close>

text \<open>
  \<^verbatim>\<open>self.__parser.parsed_content[key]\<close> with a string key: a dictionary looks the
  key up and raises \<^verbatim>\<open>KeyError\<close> when it is absent; every other value refuses a
  string subscript with \<^verbatim>\<open>TypeError\<close>.
\<close>

definition ConfigFile_getitem :: "ConfigFile \<Rightarrow> string \<Rightarrow> error + pyval" where
  "ConfigFile_getitem self key =
     (case parsed_content (parser self) of
        PDict d \<Rightarrow> (case map_of d key of None \<Rightarrow> Inl (KeyError key) | Some v \<Rightarrow> Inr v)
      | other \<Rightarrow> Inl (TypeError ''subscript''))"

definition ConfigFile_setitem :: "ConfigFile \<Rightarrow> string \<Rightarrow> pyval \<Rightarrow> error + ConfigFile" where
  "ConfigFile_setitem self key v =
     (case parsed_content (parser self) of
        PDict d \<Rightarrow> Inr (self\<lparr>parser := (parser self)\<lparr>parsed_content := PDict (AList.update key v d)\<rparr>\<rparr>)
      | other \<Rightarrow> Inl (TypeError ''item assignment''))"

definition ConfigFile_delitem :: "ConfigFile \<Rightarrow> string \<Rightarrow> error + ConfigFile" where
  "ConfigFile_delitem self key =
     (case parsed_content (parser self) of
        PDict d \<Rightarrow>
          (if dict_contains d key
           then Inr (self\<lparr>parser := (parser self)\<lparr>parsed_content := PDict (AList.delete key d)\<rparr>\<rparr>)
           else Inl (KeyError key))
      | other \<Rightarrow> Inl (TypeError ''item deletion''))"

subsection \<open>get, set, delete, stringify, has\<close>

text \<open>
  \<^verbatim>\<open>get\<close>, written over the adapter's \<^verbatim>\<open>get\<close> it calls. \<open>parse_value\<close> is the
  function of \<^verbatim>\<open>config_file.parse_value\<close>, a parameter; \<open>return_type\<close> is the
  optional callable the result is passed through. The handler catches
  \<^verbatim>\<open>ParsingError\<close> only, tests \<^verbatim>\<open>default is not type(Default)\<close>, and otherwise
  raises a new \<^verbatim>\<open>ParsingError\<close> built from the caught one.
\<close>

definition ConfigFile_get_with ::
  "(string \<Rightarrow> error + pyval) \<Rightarrow> (pyval \<Rightarrow> pyval) \<Rightarrow>
   string \<Rightarrow> bool \<Rightarrow> (pyval \<Rightarrow> error + pyval) option \<Rightarrow> pyval \<Rightarrow> error + pyval" where
  "ConfigFile_get_with parser_get parse_value key parse_types return_type default_arg =
     (case (case parser_get key of
              Inr v \<Rightarrow> Inr v
            | Inl (ParsingError err) \<Rightarrow>
                (if default_arg \<noteq> PDefaultMeta then Inr default_arg
                 else Inl (ParsingError (ParsingError err)))
            | Inl e \<Rightarrow> Inl e) of
        Inl e \<Rightarrow> Inl e
      | Inr key_value \<Rightarrow>
          (let key_value' = (if parse_types then parse_value key_value else key_value)
           in case return_type of
                None \<Rightarrow> Inr key_value'
              | Some cast \<Rightarrow> cast key_value'))"

text \<open>The facade over the JSON adapter; \<^verbatim>\<open>parse_type\<close> keeps its default \<^verbatim>\<open>True\<close>.\<close>

definition ConfigFile_get ::
  "(pyval \<Rightarrow> pyval) \<Rightarrow> ConfigFile \<Rightarrow>
   string \<Rightarrow> bool \<Rightarrow> (pyval \<Rightarrow> error + pyval) option \<Rightarrow> pyval \<Rightarrow> error + pyval" where
  "ConfigFile_get parse_value self key parse_types return_type default_arg =
     ConfigFile_get_with (\<lambda>k. JsonParser_get (parser self) k True) parse_value
       key parse_types return_type default_arg"

text \<open>The default of the parameter \<^verbatim>\<open>default\<close>: \<^verbatim>\<open>Default(None)\<close>.\<close>

definition no_default :: pyval where
  "no_default = PDefault PNone"

definition ConfigFile_set :: "ConfigFile \<Rightarrow> string \<Rightarrow> pyval \<Rightarrow> error + ConfigFile" where
  "ConfigFile_set self key v =
     (case JsonParser_set (parser self) key v of
        Inl e \<Rightarrow> Inl e
      | Inr p \<Rightarrow> Inr (self\<lparr>parser := p\<rparr>))"

definition ConfigFile_delete :: "ConfigFile \<Rightarrow> string \<Rightarrow> error + ConfigFile" where
  "ConfigFile_delete self key =
     (case JsonParser_delete (parser self) key of
        Inl e \<Rightarrow> Inl e
      | Inr p \<Rightarrow> Inr (self\<lparr>parser := p\<rparr>))"

definition ConfigFile_stringify :: "dumps \<Rightarrow> ConfigFile \<Rightarrow> error + string" where
  "ConfigFile_stringify json_dumps self = JsonParser_stringify json_dumps (parser self)"

text \<open>\<^verbatim>\<open>self.__parser.has(key, wild=wild)\<close>.\<close>

definition ConfigFile_has :: "ConfigFile \<Rightarrow> string \<Rightarrow> bool \<Rightarrow> error + bool" where
  "ConfigFile_has self key wild =
     JsonParser_has_call (parser self) key [(''wild'', PBool wild)]"

subsection \<open>restore\_original\<close>

text \<open>The files on disk: a path has contents or does not exist.\<close>

type_synonym files = "string \<rightharpoonup> string"

text \<open>
  Modelled from the spec: \<^verbatim>\<open>ConfigFilePath.exists\<close>, \<^verbatim>\<open>validate\<close>,
  \<^verbatim>\<open>unlink\<close> and \<^verbatim>\<open>contents\<close>, whose class is not among the sources, and
  \<^verbatim>\<open>shutil.copyfile\<close>. A path exists when the disk has a file there; validating
  an absent path fails with \<^verbatim>\<open>FileNotFoundError\<close> and otherwise gives the path
  back; unlinking removes the file; copying replaces the destination's bytes with the
  source's and refuses identical paths; the contents are the file's bytes.
\<close>

definition file_exists :: "files \<Rightarrow> string \<Rightarrow> bool" where
  "file_exists fs p = (fs p \<noteq> None)"

definition validate :: "files \<Rightarrow> string \<Rightarrow> error + string" where
  "validate fs p = (if file_exists fs p then Inr p else Inl (FileNotFoundError p))"

definition unlink :: "files \<Rightarrow> string \<Rightarrow> error + files" where
  "unlink fs p = (if file_exists fs p then Inr (fs(p := None)) else Inl (FileNotFoundError p))"

definition copyfile :: "files \<Rightarrow> string \<Rightarrow> string \<Rightarrow> error + files" where
  "copyfile fs src dst =
     (case fs src of
        None \<Rightarrow> Inl (FileNotFoundError src)
      | Some bytes \<Rightarrow> if src = dst then Inl (SameFileError src) else Inr (fs(dst \<mapsto> bytes)))"

definition contents :: "files \<Rightarrow> string \<Rightarrow> error + string" where
  "contents fs p = (case fs p of None \<Rightarrow> Inl (FileNotFoundError p) | Some bytes \<Rightarrow> Inr bytes)"

text \<open>
  Modelled from the spec: \<^verbatim>\<open>BaseParser.reset_internal_contents\<close>, which replaces
  the tree wholesale by running \<^verbatim>\<open>parse\<close> again on the text it is given.
\<close>

definition reset_internal_contents :: "loads \<Rightarrow> JsonParser \<Rightarrow> string \<Rightarrow> error + JsonParser" where
  "reset_internal_contents json_loads self raw =
     (case JsonParser_parse json_loads raw of
        Inl e \<Rightarrow> Inl e
      | Inr tree \<Rightarrow> Inr (self\<lparr>parsed_content := tree\<rparr>))"

text \<open>
  The \<^verbatim>\<open>else\<close> branch of \<^verbatim>\<open>restore_original\<close> and the three statements after
  the conditional. The result is the exception raised, if any, with the disk and the
  facade as the call leaves them.
\<close>

definition restore_from_original_path ::
  "loads \<Rightarrow> ConfigFile \<Rightarrow> files \<Rightarrow> error option \<times> files \<times> ConfigFile" where
  "restore_from_original_path json_loads self fs =
     (case validate fs (original_path self) of
        Inl e \<Rightarrow> (Some e, fs, self)
      | Inr original_file_path \<Rightarrow>
          (case unlink fs (path self) of
             Inl e \<Rightarrow> (Some e, fs, self)
           | Inr fs1 \<Rightarrow>
               (case copyfile fs1 original_file_path (path self) of
                  Inl e \<Rightarrow> (Some e, fs1, self)
                | Inr fs2 \<Rightarrow>
                    (case contents fs2 (path self) of
                       Inl e \<Rightarrow> (Some e, fs2, self)
                     | Inr raw \<Rightarrow>
                         (case reset_internal_contents json_loads (parser self) raw of
                            Inl e \<Rightarrow> (Some e, fs2, self)
                          | Inr p \<Rightarrow> (None, fs2, self\<lparr>parser := p\<rparr>))))))"

text \<open>
  \<^verbatim>\<open>restore_original\<close>. The argument is \<^verbatim>\<open>None\<close> or a path; the empty string
  is the one path that is false in a condition.
\<close>

definition ConfigFile_restore_original ::
  "loads \<Rightarrow> ConfigFile \<Rightarrow> files \<Rightarrow> string option \<Rightarrow> error option \<times> files \<times> ConfigFile" where
  "ConfigFile_restore_original json_loads self fs original_file_path =
     (case original_file_path of
        None \<Rightarrow> restore_from_original_path json_loads self fs
      | Some p \<Rightarrow>
          if p \<noteq> [] \<and> \<not> file_exists fs p then (Some (FileNotFoundError p), fs, self)
          else restore_from_original_path json_loads self fs)"

text \<open>
  Some dictionary among the values of \<open>items\<close> has the key \<open>k\<close>: the entries one
  level below the dictionary \<open>items\<close> belongs to.
\<close>

definition value_contains :: "(string \<times> pyval) list \<Rightarrow> string \<Rightarrow> bool" where
  "value_contains items k =
     list_ex (\<lambda>(key, v). case v of PDict inner \<Rightarrow> dict_contains inner k | other \<Rightarrow> False) items"

section \<open>Inputs used below\<close>

text \<open>The tree \<^verbatim>\<open>{"a": {"b": {"c": 1}}}\<close> and the tree \<^verbatim>\<open>{"a": 1}\<close>.\<close>

definition nested_tree :: pyval where
  "nested_tree = PDict [(''a'', PDict [(''b'', PDict [(''c'', PInt 1)])])]"

definition flat_tree :: pyval where
  "flat_tree = PDict [(''a'', PInt 1)]"

text \<open>A facade for \<^verbatim>\<open>config.json\<close> whose adapter holds the given tree.\<close>

definition facade_of :: "pyval \<Rightarrow> ConfigFile" where
  "facade_of tree =
     \<lparr>path = ''config.json'', original_path = ''config.original.json'',
      parser = \<lparr>parsed_content = tree\<rparr>\<rparr>"

text \<open>
  Two disks: one with the configuration file and a file to restore from, and one
  that also has the original beside the configuration file.
\<close>

definition two_files :: files where
  "two_files = [''config.json'' \<mapsto> ''[1]'', ''backup.json'' \<mapsto> ''[3]'']"

definition three_files :: files where
  "three_files =
     [''config.json'' \<mapsto> ''[1]'', ''config.original.json'' \<mapsto> ''[2]'',
      ''backup.json'' \<mapsto> ''[3]'']"

text \<open>
  A decoder that knows integer literals only, with the digit limit of CPython from
  version 3.11 on: a literal of at most 4300 digits decodes to its value, a longer one
  raises \<^verbatim>\<open>ValueError\<close>, and any other text raises \<^verbatim>\<open>JSONDecodeError\<close>.
\<close>

definition is_digit :: "char \<Rightarrow> bool" where
  "is_digit c = (c \<in> set ''0123456789'')"

definition is_integer_literal :: "string \<Rightarrow> bool" where
  "is_integer_literal raw =
     (case raw of
        [] \<Rightarrow> False
      | c # cs \<Rightarrow>
          is_digit c \<and> list_all is_digit cs \<and> (if c = CHR ''0'' then cs = [] else True))"

definition digits_value :: "string \<Rightarrow> int" where
  "digits_value raw = foldl (\<lambda>n c. 10 * n + (int (of_char c) - 48)) 0 raw"

definition digit_limit_loads :: loads where
  "digit_limit_loads raw =
     (if is_integer_literal raw
      then (if 4300 < length raw
            then RaisedValueError ''Exceeds the limit (4300 digits) for integer string conversion''
            else Returned (PInt (digits_value raw)))
      else RaisedJSONDecodeError ''Expecting value'')"

text \<open>The JSON text made of the digit 1 written 5000 times.\<close>

definition long_integer_text :: string where
  "long_integer_text = CHR ''1'' # replicate 4999 (CHR ''1'')"

section \<open>What the wildcard search reaches\<close>

text \<open>
  The loop answers for the dictionary it runs over and for the dictionaries that are
  its direct values; what a call on a deeper dictionary finds is dropped.
\<close>

lemma search_two_levels:
  "(\<forall>data. t = PDict data \<longrightarrow>
      JsonParser_search t k = Inr (dict_contains data k \<or> value_contains data k))"
  "search_items data items k =
     Inr ((items \<noteq> [] \<and> dict_contains data k) \<or> value_contains items k)"
proof (induction t k and data items k rule: JsonParser_search_search_items.induct)
qed (auto simp: value_contains_def dict_contains_def)

lemma has_two_levels:
  "parsed_content self = PDict data \<Longrightarrow>
     JsonParser_has self k = Inr (dict_contains data k \<or> value_contains data k)"
  by (auto simp: JsonParser_has_def search_two_levels(2) dict_contains_def)

section \<open>The claims\<close>

text \<open>
  C1. Round trip of \<^verbatim>\<open>set\<close> and \<^verbatim>\<open>get\<close> on the facade. On the code, setting
  the key \<^verbatim>\<open>a\<close> to 5 returns with the facade as it was, and the \<^verbatim>\<open>get\<close> that follows
  (no type parsing, no return type, no default) returns \<^verbatim>\<open>None\<close>, not 5.
\<close>

theorem set_then_get_yields_None:
  "ConfigFile_set cfg ''a'' (PInt 5) = Inr cfg
   \<and> ConfigFile_get parse_value cfg ''a'' False None no_default = Inr PNone"
  by (simp add: ConfigFile_set_def JsonParser_set_def ConfigFile_get_def
      ConfigFile_get_with_def JsonParser_get_def)

text \<open>
  C2. A key that does not resolve, with and without a default. On the code, over the
  JSON adapter \<^verbatim>\<open>get\<close> returns \<^verbatim>\<open>None\<close> for the key \<^verbatim>\<open>absent.key\<close> whether the
  default 7 was supplied or none was; and where an adapter's \<^verbatim>\<open>get\<close> does raise
  \<^verbatim>\<open>ParsingError\<close>, a call without a default returns the sentinel \<^verbatim>\<open>Default(None)\<close>
  instead of raising.
\<close>

theorem get_absent_key_skips_default:
  "ConfigFile_get parse_value cfg ''absent.key'' False None (PInt 7) = Inr PNone
   \<and> ConfigFile_get parse_value cfg ''absent.key'' False None no_default = Inr PNone
   \<and> ConfigFile_get_with (\<lambda>k. Inl (ParsingError (KeyError k))) parse_value
        ''absent.key'' False None no_default = Inr no_default"
  by (simp add: ConfigFile_get_def ConfigFile_get_with_def JsonParser_get_def no_default_def)

text \<open>
  C3. Wildcard \<^verbatim>\<open>has\<close> finds a key at any depth. On the code, for the tree
  \<^verbatim>\<open>{"a": {"b": {"c": 1}}}\<close> the facade's \<^verbatim>\<open>has("c", wild=True)\<close> raises
  \<^verbatim>\<open>TypeError\<close>, and the adapter's own \<^verbatim>\<open>has("c")\<close> returns \<^verbatim>\<open>False\<close> although
  the key \<^verbatim>\<open>c\<close> is in the tree, three levels down.
\<close>

theorem wild_has_misses_deep_key:
  "ConfigFile_has (facade_of nested_tree) ''c'' True = Inl (TypeError ''wild'')
   \<and> JsonParser_has (parser (facade_of nested_tree)) ''c'' = Inr False"
  by (simp add: ConfigFile_has_def JsonParser_has_call_def JsonParser_has_def
      facade_of_def nested_tree_def dict_contains_def)

text \<open>
  C4. \<^verbatim>\<open>has\<close> without \<^verbatim>\<open>wild\<close> resolves the full dotted path. On the code, the
  facade's \<^verbatim>\<open>has(key, wild=False)\<close> raises \<^verbatim>\<open>TypeError\<close> for every facade and key;
  and the adapter's \<^verbatim>\<open>has\<close> on \<^verbatim>\<open>{"a": {"b": {"c": 1}}}\<close> answers \<^verbatim>\<open>False\<close> for
  the path \<^verbatim>\<open>a.b\<close>, which resolves, and \<^verbatim>\<open>True\<close> for \<^verbatim>\<open>b\<close>, which as a path does
  not.
\<close>

theorem has_without_wild_raises_TypeError:
  "ConfigFile_has cfg key False = Inl (TypeError ''wild'')
   \<and> JsonParser_has (parser (facade_of nested_tree)) ''a.b'' = Inr False
   \<and> JsonParser_has (parser (facade_of nested_tree)) ''b'' = Inr True"
  by (simp add: ConfigFile_has_def JsonParser_has_call_def JsonParser_has_def
      facade_of_def nested_tree_def dict_contains_def)

text \<open>
  C5. \<^verbatim>\<open>delete\<close> removes the entry or fails. On the code, for the tree
  \<^verbatim>\<open>{"a": 1}\<close>, \<^verbatim>\<open>delete("a")\<close> returns with the entry still there, and
  \<^verbatim>\<open>delete("zzz")\<close> returns too, with no exception.
\<close>

theorem delete_removes_nothing:
  "ConfigFile_delete (facade_of flat_tree) ''a'' = Inr (facade_of flat_tree)
   \<and> ConfigFile_getitem (facade_of flat_tree) ''a'' = Inr (PInt 1)
   \<and> ConfigFile_delete (facade_of flat_tree) ''zzz'' = Inr (facade_of flat_tree)"
  by (simp add: ConfigFile_delete_def JsonParser_delete_def ConfigFile_getitem_def
      facade_of_def flat_tree_def)

text \<open>
  C6. \<^verbatim>\<open>restore_original\<close> restores from the path it is given. On the code, with
  \<^verbatim>\<open>backup.json\<close> given and present, the configuration file ends up with the bytes
  of \<^verbatim>\<open>config.original.json\<close>, not those of \<^verbatim>\<open>backup.json\<close>; and where
  \<^verbatim>\<open>config.original.json\<close> is absent the call raises \<^verbatim>\<open>FileNotFoundError\<close> for it,
  although the given file is there.
\<close>

theorem restore_original_ignores_given_path:
  "fst (snd (ConfigFile_restore_original json_loads (facade_of flat_tree) three_files
       (Some ''backup.json''))) ''config.json'' = Some ''[2]''
   \<and> three_files ''backup.json'' = Some ''[3]''
   \<and> fst (ConfigFile_restore_original json_loads (facade_of flat_tree) two_files
       (Some ''backup.json'')) = Some (FileNotFoundError ''config.original.json'')
   \<and> two_files ''backup.json'' = Some ''[3]''"
  by (simp add: ConfigFile_restore_original_def restore_from_original_path_def
      facade_of_def three_files_def two_files_def file_exists_def validate_def unlink_def
      copyfile_def contents_def reset_internal_contents_def JsonParser_parse_def
      split: sum.splits loads_result.splits)

text \<open>
  C7, as the code has it. \<^verbatim>\<open>parse\<close> returns a tree exactly when \<^verbatim>\<open>json.loads\<close>
  returns it; it raises \<^verbatim>\<open>ParsingError\<close> exactly when \<^verbatim>\<open>json.loads\<close> raises
  \<^verbatim>\<open>JSONDecodeError\<close>, and the \<^verbatim>\<open>ParsingError\<close> carries that exception; a
  \<^verbatim>\<open>ValueError\<close> or \<^verbatim>\<open>RecursionError\<close> of \<^verbatim>\<open>json.loads\<close> leaves \<^verbatim>\<open>parse\<close>
  unwrapped.
\<close>

theorem parse_wraps_JSONDecodeError_only:
  "(JsonParser_parse json_loads raw = Inr tree \<longleftrightarrow> json_loads raw = Returned tree)
   \<and> (JsonParser_parse json_loads raw = Inl (ParsingError e) \<longleftrightarrow>
        (\<exists>msg. json_loads raw = RaisedJSONDecodeError msg \<and> e = JSONDecodeError msg))
   \<and> (JsonParser_parse json_loads raw = Inl (ValueError m) \<longleftrightarrow>
        json_loads raw = RaisedValueError m)
   \<and> (JsonParser_parse json_loads raw = Inl (RecursionError m) \<longleftrightarrow>
        json_loads raw = RaisedRecursionError m)"
  by (auto simp: JsonParser_parse_def split: loads_result.splits)

text \<open>
  C7, as the claim states it, fails: the text of 5000 digits is an integer literal,
  so it is well-formed JSON, and for a decoder with the digit limit \<^verbatim>\<open>parse\<close>
  neither returns a tree nor raises \<^verbatim>\<open>ParsingError\<close>: the decoder's
  \<^verbatim>\<open>ValueError\<close> comes out.
\<close>

theorem parse_long_integer_raises_ValueError:
  "is_integer_literal long_integer_text
   \<and> JsonParser_parse digit_limit_loads long_integer_text
       = Inl (ValueError ''Exceeds the limit (4300 digits) for integer string conversion'')"
  by (simp add: JsonParser_parse_def digit_limit_loads_def is_integer_literal_def
      long_integer_text_def is_digit_def list_all_iff)

text \<open>
  C9. The JSON adapter's \<^verbatim>\<open>get\<close> returns \<^verbatim>\<open>None\<close> for every key and every tree,
  and its \<^verbatim>\<open>set\<close> and \<^verbatim>\<open>delete\<close> return with the adapter unchanged.
\<close>

theorem json_get_set_delete_do_nothing:
  "JsonParser_get self k parse_type = Inr PNone
   \<and> JsonParser_set self k v = Inr self
   \<and> JsonParser_delete self k = Inr self"
  by (simp add: JsonParser_get_def JsonParser_set_def JsonParser_delete_def)

text \<open>
  C10. The subscript operators work on the top-level entries of the tree, with the
  key as it is written. Where the tree is a dictionary \<open>d\<close>: reading returns the entry
  \<open>d\<close> has under the whole key and raises \<^verbatim>\<open>KeyError\<close> when there is none; assigning
  changes that one top-level entry; deleting removes it and raises \<^verbatim>\<open>KeyError\<close> when
  there is none.
\<close>

theorem subscripts_use_top_level_keys:
  assumes "parsed_content (parser self) = PDict d"
  shows "(if dict_contains d key
          then \<exists>x. ConfigFile_getitem self key = Inr x \<and> map_of d key = Some x
          else ConfigFile_getitem self key = Inl (KeyError key))
       \<and> (\<exists>self' d'. ConfigFile_setitem self key v = Inr self'
            \<and> parsed_content (parser self') = PDict d' \<and> map_of d' = (map_of d)(key \<mapsto> v))
       \<and> (if dict_contains d key
          then \<exists>self' d'. ConfigFile_delitem self key = Inr self'
            \<and> parsed_content (parser self') = PDict d' \<and> map_of d' = (map_of d)(key := None)
          else ConfigFile_delitem self key = Inl (KeyError key))"
proof -
  have look: "dict_contains d key \<longleftrightarrow> map_of d key \<noteq> None"
    by (simp add: dict_contains_def map_of_eq_None_iff)
  show ?thesis using assms look
    by (auto simp: ConfigFile_getitem_def ConfigFile_setitem_def ConfigFile_delitem_def
        update_conv' delete_conv')
qed

theorem subscripts_use_top_level_keys_witness:
  "parsed_content (parser (facade_of nested_tree))
     = PDict [(''a'', PDict [(''b'', PDict [(''c'', PInt 1)])])]
   \<and> ConfigFile_getitem (facade_of nested_tree) ''a.b'' = Inl (KeyError ''a.b'')
   \<and> ConfigFile_delitem (facade_of nested_tree) ''a.b'' = Inl (KeyError ''a.b'')
   \<and> ConfigFile_getitem (facade_of nested_tree) ''a''
       = Inr (PDict [(''b'', PDict [(''c'', PInt 1)])])"
  using subscripts_use_top_level_keys
      [of "facade_of nested_tree" "[(''a'', PDict [(''b'', PDict [(''c'', PInt 1)])])]" "''a.b''"]
    subscripts_use_top_level_keys
      [of "facade_of nested_tree" "[(''a'', PDict [(''b'', PDict [(''c'', PInt 1)])])]" "''a''"]
  by (simp add: facade_of_def nested_tree_def dict_contains_def)

end
